theory Spec2Isabelle
  imports Complex_Main "HOL-Library.Word"
begin

section \<open>Numbers\<close>

text \<open>
  A JavaScript number is a double.  The scoring functions compare their inputs with
  fixed bands, add constants and clamp: they are modelled over the reals, with exact
  arithmetic.  The engine computes no infinity, and NaN only as 0/0; a value that can be
  0/0 is an option, with \<open>None\<close> for NaN.  A comparison with NaN is false, and this
  is how the functions below read such a value.
\<close>

text \<open>
  Where a result depends on how a sum or a quotient is rounded (the means of the
  monitor, the decimals a message prints) the arithmetic is that of doubles: an
  operation of the source is the exact operation followed by \<open>binary64\<close>, the rounding
  of a real to the nearest double, a tie going to the even mantissa.  A double is
  \<open>m * 2 ^ (e - 52)\<close> with an integer \<open>m\<close> below \<open>2 ^ 53\<close> in absolute value and
  \<open>e\<close> from -1022 to 1023.  A result beyond the largest double, which the source
  turns into an infinity, is not modelled: the scores lie in [0, 100].
\<close>

text \<open>
  The exponent of a real: the largest \<open>e\<close> from -1021 to 1023 with \<open>2 ^ e\<close> at most
  the absolute value, and -1022 when there is none (zero and the subnormal range).
\<close>

fun exponent_below :: "nat \<Rightarrow> real \<Rightarrow> int" where
  "exponent_below 0 a = - 1022"
| "exponent_below (Suc n) a =
     (if 2 powi (int n - 1021) \<le> a then int n - 1021 else exponent_below n a)"

definition exponent :: "real \<Rightarrow> int" where
  "exponent x = exponent_below 2045 \<bar>x\<bar>"

text \<open>The distance between the doubles around a real.\<close>

definition ulp :: "real \<Rightarrow> real" where
  "ulp x = 2 powi (exponent x - 52)"

definition round_half_even :: "real \<Rightarrow> int" where
  "round_half_even r =
     (let n = \<lfloor>r\<rfloor>
      in if r - of_int n < 1 / 2 then n
         else if r - of_int n > 1 / 2 then n + 1
         else if even n then n else n + 1)"

definition binary64 :: "real \<Rightarrow> real" where
  "binary64 x = of_int (round_half_even (x / ulp x)) * ulp x"

text \<open>\<open>Math.round\<close>: the nearest integer, a tie going up.\<close>

definition js_round :: "real \<Rightarrow> real" where
  "js_round x = of_int \<lfloor>x + 1 / 2\<rfloor>"

text \<open>
  \<open>parseFloat(x.toFixed(1))\<close>: the decimal with one digit nearest to the double \<open>x\<close>,
  a tie going away from zero, read back as a double.  The argument is taken as the
  double nearest to it: 0.35 is the double just below 35/100 and prints as 0.3.
\<close>

definition toFixed1 :: "real \<Rightarrow> real" where
  "toFixed1 x =
     (let d = binary64 x
      in binary64 (if d < 0 then - (of_int \<lfloor>- d * 10 + 1 / 2\<rfloor> / 10)
                   else of_int \<lfloor>d * 10 + 1 / 2\<rfloor> / 10))"

section \<open>Risk scoring engine, heuristic-input mode\<close>

datatype IntentRisk = LOW | MEDIUM | HIGH

datatype AuthAction = FAST_LANE | COGNITIVE_TEST | BLOCK_IMMEDIATE

record RiskInputs =
  latency :: real
  pauseStd :: real
  fillerCount :: real
  wpm :: real
  pitchMean :: real
  pitchVar :: real
  noiseDb :: real
  isLooping :: bool
  zcr :: real
  intent :: IntentRisk

record RiskComponents =
  cognitive :: real
  behavioral :: real
  environmental :: real

record RiskAssessment =
  score :: real
  confidence :: real
  action :: AuthAction
  components :: RiskComponents

fun intentMults :: "IntentRisk \<Rightarrow> real" where
  "intentMults LOW = 1.0"
| "intentMults MEDIUM = 1.4"
| "intentMults HIGH = 1.8"

definition cogScore :: "RiskInputs \<Rightarrow> real" where
  "cogScore inputs =
     min ((if fillerCount inputs = 0 then 40
           else if fillerCount inputs < 2 then 15
           else if fillerCount inputs > 4 then 20 else 0)
        + (if pauseStd inputs < 0.08 then 30
           else if pauseStd inputs > 0.3 then 10 else 0)
        + (if latency inputs > 500 then 20 else 0)) 100"

definition behScore :: "RiskInputs \<Rightarrow> real" where
  "behScore inputs =
     min ((if pitchVar inputs > 600 then 45
           else if pitchVar inputs > 400 then 25
           else if pitchVar inputs > 200 then 10 else 0)
        + (if wpm inputs > 180 then 35
           else if wpm inputs > 160 then 15
           else if wpm inputs < 100 then 15 else 0)) 100"

definition envScore :: "RiskInputs \<Rightarrow> real" where
  "envScore inputs =
     min ((if noiseDb inputs < - 65 then 40
           else if noiseDb inputs < - 55 then 15
           else if noiseDb inputs > - 45 then 20 else 0)
        + (if zcr inputs < 0.03 then 25
           else if zcr inputs > 0.08 then 15 else 0)) 100"

definition rawRisk :: "RiskInputs \<Rightarrow> real" where
  "rawRisk inputs =
     cogScore inputs * 0.30 + behScore inputs * 0.40 + envScore inputs * 0.30"

definition finalScore :: "RiskInputs \<Rightarrow> real" where
  "finalScore inputs = min (rawRisk inputs * intentMults (intent inputs)) 100.0"

definition riskConfidence :: "RiskInputs \<Rightarrow> real" where
  "riskConfidence inputs =
     max (0.90 - (if noiseDb inputs < - 50 then 0.15 else 0)
               - (if pitchVar inputs > 500 then 0.10 else 0)) 0.60"

definition calculateRisk :: "RiskInputs \<Rightarrow> RiskAssessment" where
  "calculateRisk inputs =
     \<lparr> score = js_round (finalScore inputs * 100) / 100,
       confidence = js_round (riskConfidence inputs * 100 * 10) / 10,
       action = (if finalScore inputs < 30 then FAST_LANE
                 else if finalScore inputs < 70 then COGNITIVE_TEST
                 else BLOCK_IMMEDIATE),
       components =
         \<lparr> cognitive = js_round (cogScore inputs * 100) / 100,
           behavioral = js_round (behScore inputs * 100) / 100,
           environmental = js_round (envScore inputs * 100) / 100 \<rparr> \<rparr>"

section \<open>Arrays\<close>

text \<open>
  \<open>Array.prototype.slice(start, end)\<close>: a negative index counts from the end, and both
  indexes are clamped to the array.
\<close>

definition js_index :: "nat \<Rightarrow> int \<Rightarrow> nat" where
  "js_index n k = (if k < 0 then nat (max (int n + k) 0) else min (nat k) n)"

definition js_slice :: "int \<Rightarrow> int \<Rightarrow> 'a list \<Rightarrow> 'a list" where
  "js_slice start stop xs =
     (let s = js_index (length xs) start; e = js_index (length xs) stop
      in take (e - s) (drop s xs))"

definition js_slice_from :: "int \<Rightarrow> 'a list \<Rightarrow> 'a list" where
  "js_slice_from start xs = drop (js_index (length xs) start) xs"

section \<open>Feature vectors, quality and artifacts\<close>

text \<open>
  The object \<open>processAudio\<close> hands on as \<open>features\<close> holds seven of the extractor's
  fields; the full vector extends it.  \<open>pitch_var\<close> is a property the scoring engine
  reads and the extractor never sets (\<open>None\<close>: undefined).  The centroid and the two
  mel-band statistics are \<open>None\<close> when the source computes NaN.
\<close>

record AnalysisFeatures =
  duration :: real
  rms_mean :: real
  zcr_mean :: real
  spec_centroid_mean :: "real option"
  spec_rolloff_mean :: real
  tempo :: real
  mfcc_mean :: "real option"
  pitch_var :: "real option"

record FeatureVector = AnalysisFeatures +
  rms_std :: real
  rms_max :: real
  zcr_std :: real
  spec_entropy :: real
  mfcc_std :: "real option"
  pitch_stability :: real
  loudness_variance :: real

record QualityAssessment =
  quality_score :: real
  has_voice :: bool
  natural_speech :: bool
  good_frequency :: bool
  consistent_pitch :: bool
  natural_duration :: bool

text \<open>A boolean used as a number: \<open>true\<close> is 1 and \<open>false\<close> is 0.\<close>

definition js_bool_num :: "bool \<Rightarrow> real" where
  "js_bool_num b = (if b then 1 else 0)"

text \<open>
  The body of \<open>analyzeQuality\<close> past its null guard.  The source writes the band tests
  of the score as \<open>0.15 < features.zcr_mean < 0.5\<close> and \<open>1 < features.duration < 30\<close>:
  JavaScript compares the boolean of the first comparison with the second bound.
\<close>

definition quality_of :: "FeatureVector \<Rightarrow> QualityAssessment" where
  "quality_of f =
     \<lparr> quality_score =
         (if rms_mean f > 0.05 then 20 else 0)
       + (if js_bool_num (0.15 < zcr_mean f) < 0.5 then 20 else 0)
       + (if spec_rolloff_mean f > 0.3 then 20 else 0)
       + (if pitch_stability f > 0.5 then 20 else 0)
       + (if js_bool_num (1 < duration f) < 30 then 20 else 0),
       has_voice = (rms_mean f > 0.05),
       natural_speech = (0.15 < zcr_mean f \<and> zcr_mean f < 0.5),
       good_frequency = (spec_rolloff_mean f > 0.3),
       consistent_pitch = (pitch_stability f > 0.5),
       natural_duration = (1 < duration f \<and> duration f < 30) \<rparr>"

definition analyzeQuality :: "FeatureVector option \<Rightarrow> QualityAssessment option" where
  "analyzeQuality features = (case features of None \<Rightarrow> None | Some f \<Rightarrow> Some (quality_of f))"

text \<open>
  The five flags \<open>detectArtifacts\<close> sets.  \<open>background_noise\<close> and \<open>echo\<close> are the two
  names the scoring engine reads besides; \<open>detectArtifacts\<close> leaves them undefined,
  which reads as false.
\<close>

record Artifacts =
  robotic_voice :: bool
  heavy_background :: bool
  clipping :: bool
  fake_audio :: bool
  echo_present :: bool
  background_noise :: bool
  echo :: bool

text \<open>The source calls the inner object \<open>artifacts\<close>, a name the analysis record takes.\<close>

record ArtifactReport =
  artifact_flags :: Artifacts
  artifact_count :: nat
  artifact_score :: real

definition gt_num :: "real option \<Rightarrow> real \<Rightarrow> bool" where
  "gt_num x c = (case x of None \<Rightarrow> False | Some v \<Rightarrow> v > c)"

definition lt_num :: "real option \<Rightarrow> real \<Rightarrow> bool" where
  "lt_num x c = (case x of None \<Rightarrow> False | Some v \<Rightarrow> v < c)"

definition artifacts_of :: "FeatureVector \<Rightarrow> Artifacts" where
  "artifacts_of f =
     \<lparr> robotic_voice = (rms_std f < 0.01),
       heavy_background = (zcr_mean f > 0.6),
       clipping = (rms_max f > 0.9),
       fake_audio = (lt_num (mfcc_std f) 0.05 \<or> gt_num (mfcc_std f) 50),
       echo_present =
         (case spec_centroid_mean f of None \<Rightarrow> False
          | Some c \<Rightarrow> \<bar>c - spec_rolloff_mean f\<bar> > 0.3),
       background_noise = False,
       echo = False \<rparr>"

definition count_true :: "bool list \<Rightarrow> nat" where
  "count_true bs = length (filter (\<lambda>v. v) bs)"

definition report_of :: "FeatureVector \<Rightarrow> ArtifactReport" where
  "report_of f =
     (let a = artifacts_of f;
          artifactCount = count_true [robotic_voice a, heavy_background a, clipping a,
                                      fake_audio a, echo_present a]
      in \<lparr> artifact_flags = a,
           artifact_count = artifactCount,
           artifact_score = min 100 (real artifactCount * 25) \<rparr>)"

definition detectArtifacts :: "FeatureVector option \<Rightarrow> ArtifactReport option" where
  "detectArtifacts features = (case features of None \<Rightarrow> None | Some f \<Rightarrow> Some (report_of f))"

definition calculateFraudRisk :: "FeatureVector option \<Rightarrow> real" where
  "calculateFraudRisk features =
     (case features of
        None \<Rightarrow> 50
      | Some f \<Rightarrow>
          min 100 (max 0
            (50
             + (if quality_score (quality_of f) < 40 then 15 else 0)
             + artifact_score (report_of f)
             + (if rms_std f < 0.01 then 20 else 0)
             + (if tempo f > 300 then 15 else 0))))"

text \<open>
  The recommendation \<open>BLOCK_IMMEDIATE\<close> is \<open>REC_BLOCK_IMMEDIATE\<close> here; the
  verdict of the risk engine has the name.
\<close>

datatype Recommendation = REC_BLOCK_IMMEDIATE | CHALLENGE_REQUIRED | ALLOW

definition getRecommendation :: "real \<Rightarrow> Recommendation" where
  "getRecommendation riskScore =
     (if riskScore > 75 then REC_BLOCK_IMMEDIATE
      else if riskScore > 50 then CHALLENGE_REQUIRED
      else ALLOW)"

section \<open>Risk scoring engine, feature-vector mode\<close>

record Analysis =
  features :: "AnalysisFeatures option"
  quality :: "QualityAssessment option"
  artifacts :: "ArtifactReport option"
  fraud_risk :: "real option"
  recommendation :: Recommendation

definition rmsRisk :: "AnalysisFeatures \<Rightarrow> real" where
  "rmsRisk f = min 20 (\<bar>rms_mean f - 0.15\<bar> * 100)"

definition zcrRisk :: "AnalysisFeatures \<Rightarrow> real" where
  "zcrRisk f =
     (let zcrDev = \<bar>zcr_mean f - 0.05\<bar>
      in if zcrDev > 0.1 then 20 else if zcrDev > 0.05 then 10 else 0)"

definition specRisk :: "AnalysisFeatures \<Rightarrow> real" where
  "specRisk f =
     (if lt_num (spec_centroid_mean f) 800 then 15
      else if gt_num (spec_centroid_mean f) 3500 then 10 else 0)"

definition rolloffRisk :: "AnalysisFeatures \<Rightarrow> real" where
  "rolloffRisk f = min 10 (\<bar>spec_rolloff_mean f - 3500\<bar> / 500)"

definition tempoRisk :: "AnalysisFeatures \<Rightarrow> real" where
  "tempoRisk f =
     (if tempo f < 80 then 15
      else if tempo f > 200 then 15
      else if tempo f < 100 \<or> tempo f > 180 then 8 else 0)"

text \<open>\<open>if (f.pitch_var)\<close>: the property is there and is not zero.\<close>

definition pitchRisk :: "AnalysisFeatures \<Rightarrow> real" where
  "pitchRisk f =
     (case pitch_var f of
        None \<Rightarrow> 0
      | Some v \<Rightarrow> if v = 0 then 0 else min 15 (v / 40))"

definition artifactRisk :: "Analysis \<Rightarrow> real" where
  "artifactRisk analysis =
     (case artifacts analysis of
        None \<Rightarrow> 0
      | Some r \<Rightarrow>
          (let art = artifact_flags r
           in (if robotic_voice art then 20 else 0)
            + (if fake_audio art then 25 else 0)
            + (if clipping art then 15 else 0)
            + (if background_noise art then 10 else 0)
            + (if echo art then 8 else 0)))"

text \<open>\<open>analysis.fraud_risk && analysis.fraud_risk < 100\<close>.\<close>

definition fraudContribution :: "Analysis \<Rightarrow> real" where
  "fraudContribution analysis =
     (case fraud_risk analysis of
        None \<Rightarrow> 0
      | Some r \<Rightarrow> if r \<noteq> 0 \<and> r < 100 then r * 0.1 else 0)"

text \<open>
  \<open>rnd\<close> is the value \<open>Math.random()\<close> returns, drawn when the analysis or its features
  are missing.
\<close>

definition calculateScore :: "real \<Rightarrow> Analysis option \<Rightarrow> real" where
  "calculateScore rnd analysis =
     (case analysis of
        None \<Rightarrow> rnd * 30
      | Some a \<Rightarrow>
          (case features a of
             None \<Rightarrow> rnd * 30
           | Some f \<Rightarrow>
               min 100 (max 0
                 (rmsRisk f + zcrRisk f + specRisk f + rolloffRisk f + tempoRisk f
                  + pitchRisk f + artifactRisk a + fraudContribution a))))"

section \<open>PCM decoder\<close>

type_synonym byte = "8 word"

text \<open>
  What \<open>parseWAV\<close> is given: an \<open>ArrayBuffer\<close> of bytes, or a value of another kind
  (undefined, a typed array, a Node \<open>Buffer\<close>), on which \<open>new DataView\<close> raises a
  TypeError.
\<close>

datatype AudioBuffer = ArrayBuffer "byte list" | NotArrayBuffer

datatype js_error = TypeError

text \<open>The four bytes at \<open>i\<close> spell \<open>data\<close>.\<close>

definition data_tag_at :: "byte list \<Rightarrow> nat \<Rightarrow> bool" where
  "data_tag_at bs i =
     (bs ! i = 0x64 \<and> bs ! (i + 1) = 0x61 \<and> bs ! (i + 2) = 0x74 \<and> bs ! (i + 3) = 0x61)"

text \<open>
  The scan for the data chunk, from index \<open>i\<close>: \<open>dataStart\<close> is 8 past the first tag
  found while \<open>i < byteLength - 4\<close>, and stays 0 when there is none.
\<close>

function find_data_start :: "byte list \<Rightarrow> nat \<Rightarrow> nat" where
  "find_data_start bs i =
     (if i + 4 < length bs
      then (if data_tag_at bs i then i + 8 else find_data_start bs (i + 1))
      else 0)"
  by pat_completeness auto
termination
  by (relation "measure (\<lambda>(bs, i). length bs - i)") auto

declare find_data_start.simps [simp del]

text \<open>\<open>view.getInt16(i, true)\<close>: two bytes, little-endian, two's complement.\<close>

definition getInt16 :: "byte list \<Rightarrow> nat \<Rightarrow> int" where
  "getInt16 bs i = sint (word_of_int (uint (bs ! i) + 256 * uint (bs ! (i + 1))) :: 16 word)"

text \<open>The samples read from index \<open>i\<close> on, while \<open>i < byteLength - 1\<close>, two bytes each.\<close>

function samples_from :: "byte list \<Rightarrow> nat \<Rightarrow> real list" where
  "samples_from bs i =
     (if i + 1 < length bs
      then real_of_int (getInt16 bs i) / 32768.0 # samples_from bs (i + 2)
      else [])"
  by pat_completeness auto
termination
  by (relation "measure (\<lambda>(bs, i). length bs - i)") auto

declare samples_from.simps [simp del]

text \<open>\<open>None\<close> is the null the catch block returns.\<close>

definition parseWAV :: "AudioBuffer \<Rightarrow> real list option" where
  "parseWAV buffer =
     (case buffer of
        NotArrayBuffer \<Rightarrow> None
      | ArrayBuffer bs \<Rightarrow> Some (samples_from bs (find_data_start bs 0)))"

section \<open>Frame feature extractor\<close>

definition sampleRate :: real where
  "sampleRate = 16000"

definition frameSize :: nat where
  "frameSize = 512"

text \<open>The frames \<open>audioData.slice(i, i + frameSize)\<close> for \<open>i\<close> = 0, 512, ... below the length.\<close>

function frames_from :: "real list \<Rightarrow> nat \<Rightarrow> real list list" where
  "frames_from audioData i =
     (if i < length audioData
      then take frameSize (drop i audioData) # frames_from audioData (i + frameSize)
      else [])"
  by pat_completeness auto
termination
  by (relation "measure (\<lambda>(audioData, i). length audioData - i)") (auto simp: frameSize_def)

declare frames_from.simps [simp del]

definition calculateRMS :: "real list \<Rightarrow> real list" where
  "calculateRMS audioData =
     map (\<lambda>frame. sqrt (foldl (\<lambda>sum x. sum + x * x) 0 frame / real (length frame)))
       (frames_from audioData 0)"

definition crossings :: "real list \<Rightarrow> nat" where
  "crossings frame =
     length (filter (\<lambda>j. (frame ! j \<ge> 0 \<and> frame ! (j - 1) < 0)
                        \<or> (frame ! j < 0 \<and> frame ! (j - 1) \<ge> 0))
               [1 ..< length frame])"

definition calculateZCR :: "real list \<Rightarrow> real list" where
  "calculateZCR audioData =
     map (\<lambda>frame. real (crossings frame) / real (length frame)) (frames_from audioData 0)"

text \<open>\<open>_mean\<close> and \<open>_std\<close>; the engine calls them on arrays that are not empty.\<close>

definition mean :: "real list \<Rightarrow> real" where
  "mean arr = foldl (\<lambda>a b. a + b) 0 arr / real (length arr)"

definition variance :: "real list \<Rightarrow> real" where
  "variance arr = foldl (\<lambda>sum x. sum + (x - mean arr) ^ 2) 0 arr / real (length arr)"

definition std :: "real list \<Rightarrow> real" where
  "std arr = sqrt (variance arr)"

definition calculateLoudnessVariance :: "real list \<Rightarrow> real" where
  "calculateLoudnessVariance rmsValues = variance rmsValues"

subsection \<open>The recursive transform\<close>

definition even_indexed :: "'a list \<Rightarrow> 'a list" where
  "even_indexed xs = map (\<lambda>i. xs ! i) (filter (\<lambda>i. i mod 2 = 0) [0 ..< length xs])"

definition odd_indexed :: "'a list \<Rightarrow> 'a list" where
  "odd_indexed xs = map (\<lambda>i. xs ! i) (filter (\<lambda>i. i mod 2 = 1) [0 ..< length xs])"

text \<open>
  The combine loop, over the values of \<open>k\<close> below \<open>N / 2\<close>.  Reading \<open>.real\<close> of
  \<open>odd[k]\<close> or \<open>even[k]\<close> past the end of the array raises a TypeError.  Each step
  gives the pair written to \<open>result[k]\<close> and \<open>result[k + N / 2]\<close>.
\<close>

fun butterflies ::
  "nat \<Rightarrow> complex list \<Rightarrow> complex list \<Rightarrow> nat list \<Rightarrow> js_error + (complex \<times> complex) list" where
  "butterflies N evn od [] = Inr []"
| "butterflies N evn od (k # ks) =
     (if k < length od \<and> k < length evn
      then
        (let angle = (- 2 * pi * real k) / real N;
             wr = cos angle;
             wi = sin angle;
             re = Re (od ! k) * wr - Im (od ! k) * wi;
             im = Re (od ! k) * wi + Im (od ! k) * wr
         in case butterflies N evn od ks of
              Inl e \<Rightarrow> Inl e
            | Inr rest \<Rightarrow>
                Inr ((Complex (Re (evn ! k) + re) (Im (evn ! k) + im),
                      Complex (Re (evn ! k) - re) (Im (evn ! k) - im)) # rest))
      else Inl TypeError)"

text \<open>
  The array the loop leaves: for an even \<open>N\<close> the entries \<open>result[k]\<close> followed by the
  entries \<open>result[k + N / 2]\<close>; for an odd \<open>N\<close> the index \<open>k + N / 2\<close> is not an integer,
  the assignment sets a property and the array keeps the entries \<open>result[k]\<close> only.
\<close>

definition assemble :: "nat \<Rightarrow> (complex \<times> complex) list \<Rightarrow> complex list" where
  "assemble N ps = (if even N then map fst ps @ map snd ps else map fst ps)"

function simpleFFT :: "real list \<Rightarrow> js_error + complex list" where
  "simpleFFT input =
     (if length input \<le> 1 then Inr (map (\<lambda>x. Complex x 0) input)
      else if length input = 2
      then Inr [Complex (input ! 0 + input ! 1) 0, Complex (input ! 0 - input ! 1) 0]
      else
        (case simpleFFT (even_indexed input) of
           Inl e \<Rightarrow> Inl e
         | Inr evn \<Rightarrow>
             (case simpleFFT (odd_indexed input) of
                Inl e \<Rightarrow> Inl e
              | Inr od \<Rightarrow>
                  (case butterflies (length input) evn od [0 ..< (length input + 1) div 2] of
                     Inl e \<Rightarrow> Inl e
                   | Inr ps \<Rightarrow> Inr (assemble (length input) ps)))))"
  by pat_completeness auto
termination
proof (relation "measure length")
  show "wf (measure length)" by simp
next
  fix input :: "real list"
  assume "\<not> length input \<le> 1"
  then have "1 \<in> set [0 ..< length input]" by simp
  then have "length (filter (\<lambda>i. i mod 2 = 0) [0 ..< length input])
             < length [0 ..< length input]"
    by (intro length_filter_less [of 1]) simp_all
  then show "(even_indexed input, input) \<in> measure length"
    by (simp add: even_indexed_def)
next
  fix input :: "real list"
  assume "\<not> length input \<le> 1"
  then have "0 \<in> set [0 ..< length input]" by (cases input) simp_all
  then have "length (filter (\<lambda>i. i mod 2 = 1) [0 ..< length input])
             < length [0 ..< length input]"
    by (intro length_filter_less [of 0]) simp_all
  then show "(odd_indexed input, input) \<in> measure length"
    by (simp add: odd_indexed_def)
qed

declare simpleFFT.simps [simp del]

subsection \<open>Spectral features\<close>

text \<open>
  The window handed to the transform:
  \<open>audioData.slice(0, Math.min(2048, audioData.length))\<close>.
\<close>

definition fft_input :: "real list \<Rightarrow> real list" where
  "fft_input audioData = js_slice 0 (int (min 2048 (length audioData))) audioData"

definition magnitudes :: "complex list \<Rightarrow> real list" where
  "magnitudes fft = map (\<lambda>c. sqrt (Re c * Re c + Im c * Im c)) fft"

text \<open>
  The spectrum divided by its maximum.  When the maximum is 0 every entry is 0/0, that
  is NaN: the result is \<open>None\<close>.  An empty spectrum, which the extractor never
  produces, gives the same spectral data as the NaN case and is put with it.
\<close>

definition normalize :: "real list \<Rightarrow> real list option" where
  "normalize magnitude =
     (if magnitude = [] then None
      else
        (let maxMag = Max (set magnitude)
         in if maxMag = 0 then None else Some (map (\<lambda>m. m / maxMag) magnitude)))"

definition spectralCentroid :: "real list \<Rightarrow> real" where
  "spectralCentroid normalized =
     (let weightedSum =
            foldl (\<lambda>a i. a + (real i * sampleRate) / real (length normalized) * normalized ! i)
              0 [0 ..< length normalized];
          totalMag = foldl (\<lambda>a i. a + normalized ! i) 0 [0 ..< length normalized]
      in weightedSum / totalMag)"

text \<open>
  The roll-off loop from index \<open>i\<close> with the energy summed so far: the frequency of the
  first bin at which the sum exceeds 95% of the total, and 0 when there is none.
\<close>

function rolloff_from :: "real list \<Rightarrow> real \<Rightarrow> nat \<Rightarrow> real \<Rightarrow> real" where
  "rolloff_from normalized totalEnergy i energySum =
     (if i < length normalized
      then
        (if energySum + normalized ! i > totalEnergy * 0.95
         then (real i * sampleRate) / real (length normalized)
         else rolloff_from normalized totalEnergy (i + 1) (energySum + normalized ! i))
      else 0)"
  by pat_completeness auto
termination
  by (relation "measure (\<lambda>(normalized, totalEnergy, i, energySum). length normalized - i)") auto

declare rolloff_from.simps [simp del]

definition spectralRolloff :: "real list \<Rightarrow> real" where
  "spectralRolloff normalized =
     rolloff_from normalized (foldl (\<lambda>a b. a + b) 0 normalized) 0 0"

definition spectralEntropy :: "real list \<Rightarrow> real" where
  "spectralEntropy normalized =
     - foldl (\<lambda>sum p. sum + (if p > 0 then p * log 2 p else 0)) 0 normalized"

text \<open>
  The 13 band means.  A spectrum of fewer than 13 bins has band size 0 and every band
  is 0/0: \<open>None\<close>.
\<close>

definition calculateMelBands :: "real list \<Rightarrow> real list option" where
  "calculateMelBands spectrum =
     (let numBands = 13;
          bandSize = length spectrum div numBands
      in if bandSize = 0 then None
         else Some (map (\<lambda>i. foldl (\<lambda>a b. a + b) 0
                               (js_slice (int (i * bandSize)) (int ((i + 1) * bandSize)) spectrum)
                             / real bandSize)
                      [0 ..< numBands]))"

text \<open>The source's field \<open>mfcc_std\<close> is \<open>mfcc_sd\<close> here; the feature vector has the name.\<close>

record SpectralData =
  centroid :: "real option"
  rolloff :: real
  entropy :: real
  mfcc :: "real option"
  mfcc_sd :: "real option"

definition calculateSpectral :: "real list \<Rightarrow> js_error + SpectralData" where
  "calculateSpectral audioData =
     (case simpleFFT (fft_input audioData) of
        Inl e \<Rightarrow> Inl e
      | Inr fft \<Rightarrow>
          Inr (case normalize (magnitudes fft) of
                 None \<Rightarrow>
                   \<lparr> centroid = None, rolloff = 0 / sampleRate, entropy = 0,
                     mfcc = None, mfcc_sd = None \<rparr>
               | Some normalized \<Rightarrow>
                   \<lparr> centroid = Some (spectralCentroid normalized / sampleRate),
                     rolloff = spectralRolloff normalized / sampleRate,
                     entropy = spectralEntropy normalized,
                     mfcc = map_option mean (calculateMelBands normalized),
                     mfcc_sd = map_option std (calculateMelBands normalized) \<rparr>))"

subsection \<open>Pitch\<close>

definition minLag :: nat where
  "minLag = nat \<lfloor>sampleRate / 400\<rfloor>"

definition maxLag :: nat where
  "maxLag = nat \<lfloor>sampleRate / 80\<rfloor>"

definition autocorrelation :: "real list \<Rightarrow> nat \<Rightarrow> real" where
  "autocorrelation audioData lag =
     foldl (\<lambda>corr i. corr + audioData ! i * audioData ! (i + lag)) 0
       [0 ..< length audioData - lag]"

definition pitchLag :: "real list \<Rightarrow> nat" where
  "pitchLag audioData =
     snd (foldl (\<lambda>(maxCorr, best) lag.
                   if autocorrelation audioData lag > maxCorr
                   then (autocorrelation audioData lag, lag) else (maxCorr, best))
            (0, minLag) [minLag ..< maxLag])"

text \<open>The pair of \<open>tempo\<close> and \<open>stability\<close>.\<close>

definition estimatePitch :: "real list \<Rightarrow> real \<times> real" where
  "estimatePitch audioData =
     (let fundamentalFreq = sampleRate / real (pitchLag audioData)
      in (fundamentalFreq * 1.5, 1 / (1 + \<bar>fundamentalFreq - 200\<bar> / 200)))"

subsection \<open>The feature vector and the analysis\<close>

text \<open>
  \<open>Inl TypeError\<close>: the transform raised; \<open>Inr None\<close>: the null returned for a missing
  or empty sample array.
\<close>

definition extractFeatures :: "real list option \<Rightarrow> js_error + FeatureVector option" where
  "extractFeatures audioData =
     (case audioData of
        None \<Rightarrow> Inr None
      | Some xs \<Rightarrow>
          if length xs = 0 then Inr None
          else
            (case calculateSpectral xs of
               Inl e \<Rightarrow> Inl e
             | Inr spectralData \<Rightarrow>
                 Inr (Some
                   \<lparr> duration = real (length xs) / sampleRate,
                     rms_mean = mean (calculateRMS xs),
                     zcr_mean = mean (calculateZCR xs),
                     spec_centroid_mean = centroid spectralData,
                     spec_rolloff_mean = rolloff spectralData,
                     tempo = fst (estimatePitch xs),
                     mfcc_mean = mfcc spectralData,
                     pitch_var = None,
                     rms_std = std (calculateRMS xs),
                     rms_max = Max (set (calculateRMS xs)),
                     zcr_std = std (calculateZCR xs),
                     spec_entropy = entropy spectralData,
                     mfcc_std = mfcc_sd spectralData,
                     pitch_stability = snd (estimatePitch xs),
                     loudness_variance = calculateLoudnessVariance (calculateRMS xs) \<rparr>)))"

text \<open>The object \<open>processAudio\<close> builds from a feature vector.\<close>

definition analysis_of :: "FeatureVector \<Rightarrow> Analysis" where
  "analysis_of f =
     \<lparr> features =
         Some \<lparr> duration = duration f, rms_mean = rms_mean f, zcr_mean = zcr_mean f,
                spec_centroid_mean = spec_centroid_mean f,
                spec_rolloff_mean = spec_rolloff_mean f, tempo = tempo f,
                mfcc_mean = mfcc_mean f, pitch_var = None \<rparr>,
       quality = analyzeQuality (Some f),
       artifacts = detectArtifacts (Some f),
       fraud_risk = Some (calculateFraudRisk (Some f)),
       recommendation = getRecommendation (calculateFraudRisk (Some f)) \<rparr>"

text \<open>\<open>None\<close> is the null of the early returns and of the catch block.\<close>

definition processAudio :: "AudioBuffer \<Rightarrow> Analysis option" where
  "processAudio audioBuffer =
     (case parseWAV audioBuffer of
        None \<Rightarrow> None
      | Some audioData \<Rightarrow>
          (case extractFeatures (Some audioData) of
             Inl e \<Rightarrow> None
           | Inr None \<Rightarrow> None
           | Inr (Some f) \<Rightarrow> Some (analysis_of f)))"

text \<open>A power of two: 1, 2, 4, ...\<close>

function is_pow2 :: "nat \<Rightarrow> bool" where
  "is_pow2 n = (if n \<le> 1 then n = 1 else even n \<and> is_pow2 (n div 2))"
  by pat_completeness auto
termination
  by (relation "measure (\<lambda>n. n)") auto

declare is_pow2.simps [simp del]

text \<open>The scan meets no data tag: none starts at an index below \<open>byteLength - 4\<close>.\<close>

definition tag_absent :: "byte list \<Rightarrow> bool" where
  "tag_absent bs = list_all (\<lambda>i. \<not> data_tag_at bs i) [0 ..< length bs - 4]"

section \<open>Real-time risk monitor\<close>

text \<open>The severities \<open>CRITICAL\<close>, \<open>HIGH\<close> and \<open>MEDIUM\<close>.\<close>

datatype Severity = SEV_CRITICAL | SEV_HIGH | SEV_MEDIUM

datatype Trend = STABLE | INCREASING | DECREASING

text \<open>
  An entry of \<open>recentScores\<close> is the pair of a score and its timestamp, the
  milliseconds \<open>new Date()\<close> read when the entry was made.
\<close>

type_synonym ScoreEntry = "real \<times> int"

record RealTimeRiskMonitor =
  recentScores :: "ScoreEntry list"
  threshold :: real

record Alert =
  isAlert :: bool
  severity :: Severity
  trend :: Trend

definition new_monitor :: RealTimeRiskMonitor where
  "new_monitor = \<lparr> recentScores = [], threshold = 70 \<rparr>"

text \<open>\<open>reduce((a, b) => a + b.score, 0)\<close>: each sum is rounded.\<close>

definition sum_scores :: "ScoreEntry list \<Rightarrow> real" where
  "sum_scores es = foldl (\<lambda>a b. binary64 (a + fst b)) 0 es"

definition calculateTrend :: "RealTimeRiskMonitor \<Rightarrow> Trend" where
  "calculateTrend m =
     (if length (recentScores m) < 2 then STABLE
      else
        (let recent = js_slice_from (- 5) (recentScores m);
             avg = binary64 (sum_scores recent / real (length recent));
             previous = js_slice (- 10) (- 5) (recentScores m);
             prevAvg = (if length previous > 0
                        then binary64 (sum_scores previous / real (length previous))
                        else avg)
         in if avg > binary64 (prevAvg + 5) then INCREASING
            else if avg < binary64 (prevAvg - 5) then DECREASING
            else STABLE))"

text \<open>
  \<open>checkAlert\<close> changes the monitor; the model returns the alert and the new monitor.
  \<open>now\<close> is the time \<open>new Date()\<close> reads.
\<close>

definition checkAlert ::
  "real \<Rightarrow> int \<Rightarrow> RealTimeRiskMonitor \<Rightarrow> Alert \<times> RealTimeRiskMonitor" where
  "checkAlert s now m =
     (let pushed = recentScores m @ [(s, now)];
          kept = (if length pushed > 10 then tl pushed else pushed);
          m' = m\<lparr>recentScores := kept\<rparr>
      in (\<lparr> isAlert = (s > threshold m'),
            severity = (if s > 85 then SEV_CRITICAL
                        else if s > 70 then SEV_HIGH else SEV_MEDIUM),
            trend = calculateTrend m' \<rparr>, m'))"

text \<open>A run of appends on a monitor, in arrival order.\<close>

fun appends ::
  "ScoreEntry list \<Rightarrow> RealTimeRiskMonitor \<Rightarrow> RealTimeRiskMonitor" where
  "appends [] m = m"
| "appends (e # es) m = appends es (snd (checkAlert (fst e) (snd e) m))"

text \<open>
  The mean of the scores of a run of entries as the monitor computes it: the rounded
  sum, divided and rounded.
\<close>

definition mean_score :: "ScoreEntry list \<Rightarrow> real" where
  "mean_score es = binary64 (sum_scores es / real (length es))"

section \<open>File analysis\<close>

text \<open>
  \<open>AudioProcessor.analyzeAudioFile\<close> derives its metrics from a hash of the first
  1000 bytes of the file.  The hash is kept in 32 bits: \<open>hash << 5\<close> and
  \<open>hash & hash\<close> both convert to a signed 32-bit integer.
\<close>

definition file_hash :: "byte list \<Rightarrow> 32 word" where
  "file_hash fileBuffer =
     foldl (\<lambda>hash b. (push_bit 5 hash - hash) + ucast b) 0 (take 1000 fileBuffer)"

definition file_seed :: "byte list \<Rightarrow> real" where
  "file_seed fileBuffer = real_of_int (\<bar>sint (file_hash fileBuffer)\<bar> mod 100)"

text \<open>\<open>now\<close> is \<open>Date.now()\<close>, in milliseconds.\<close>

definition analyzeAudioFile :: "byte list \<Rightarrow> int \<Rightarrow> RiskInputs" where
  "analyzeAudioFile fileBuffer now =
     (let seed = file_seed fileBuffer;
          timeBasedVariation = real_of_int (now mod 50) / 100
      in \<lparr> latency = 200 + seed * 4,
           pauseStd = 0.05 + (seed / 100) * 0.35,
           fillerCount = of_int \<lfloor>(seed / 10) * 5\<rfloor>,
           wpm = 80 + seed * 1.5 + timeBasedVariation * 40,
           pitchMean = 100 + seed * 1.2,
           pitchVar = 100 + seed * 9,
           noiseDb = - 70 + seed * 0.2,
           isLooping = False,
           zcr = 0.02 + (seed / 100) * 0.08,
           intent = MEDIUM \<rparr>)"

section \<open>Server: the shared monitor, the file endpoint and the stream sessions\<close>

text \<open>
  What a stream session keeps: the variables of its connection closure.
\<close>

record Session =
  sessionId :: string
  analysisCount :: nat
  sessionStartTime :: int

text \<open>
  A client message after \<open>JSON.parse\<close>.  An audio chunk carries the bytes its
  \<open>data\<close> decodes to.  \<open>Malformed\<close> is a message on which parsing or decoding raises;
  it carries the error's text.
\<close>

datatype ClientMessage =
    AudioChunk "byte list"
  | EndStream
  | OtherMessage
  | Malformed string

datatype Verdict = VERDICT_BLOCK | VERDICT_ALLOW

record Monitoring =
  alert_triggered :: bool
  monitoring_severity :: Severity
  monitoring_trend :: Trend
  recent_scores :: "real list"

text \<open>
  Of an \<open>analysis_result\<close> message the model keeps the session, the number, the risk
  scores and the monitoring block; the other blocks repeat the chunk's features and the
  challenge text and read no state.
\<close>

record AnalysisResult =
  result_session :: string
  analysisNumber :: nat
  simple_score :: real
  full_analysis :: RiskAssessment
  monitoring :: Monitoring

text \<open>\<open>average_risk_score\<close> is \<open>None\<close> when the source divides 0 by 0.\<close>

record Summary =
  total_analyses :: nat
  session_duration_seconds :: real
  average_risk_score :: "real option"
  summary_trend :: Trend
  final_verdict :: Verdict

datatype ServerMessage =
    Connected string
  | AnalysisResultMsg AnalysisResult
  | StreamComplete string Summary
  | ErrorMsg string string

text \<open>
  What the handler draws besides the message: the clock and the three values of
  \<open>Math.random()\<close>.
\<close>

record Env =
  clock :: int
  random_score :: real
  random_latency :: real
  random_filler :: real

text \<open>\<open>x || d\<close> on a number that may be undefined.\<close>

definition or_default :: "real option \<Rightarrow> real \<Rightarrow> real" where
  "or_default x d = (case x of None \<Rightarrow> d | Some v \<Rightarrow> if v = 0 then d else v)"

text \<open>
  The inputs of the full analysis of a chunk.  The features have no \<open>pause_std\<close>,
  \<open>pitch_mean\<close> or \<open>noise_db\<close>: the defaults stand.
\<close>

definition stream_inputs :: "Env \<Rightarrow> Analysis \<Rightarrow> RiskInputs" where
  "stream_inputs env analysis =
     \<lparr> latency = random_latency env * 400 + 200,
       pauseStd = 0.15,
       fillerCount = of_int \<lfloor>random_filler env * 5\<rfloor>,
       wpm = or_default (map_option tempo (features analysis)) 120,
       pitchMean = 150,
       pitchVar = or_default (Option.bind (features analysis) pitch_var) 300,
       noiseDb = - 60,
       isLooping = False,
       zcr = or_default (map_option zcr_mean (features analysis)) 0.05,
       intent = MEDIUM \<rparr>"

definition session_summary ::
  "Env \<Rightarrow> Session \<Rightarrow> RealTimeRiskMonitor \<Rightarrow> Summary" where
  "session_summary env s m =
     \<lparr> total_analyses = analysisCount s,
       session_duration_seconds =
         js_round (binary64 (real_of_int (clock env - sessionStartTime s) / 1000)),
       average_risk_score =
         (if analysisCount s > 0
          then (if min (analysisCount s) (length (recentScores m)) = 0 then None
                else Some (toFixed1
                       (binary64 (sum_scores
                              (js_slice_from (- int (analysisCount s)) (recentScores m))
                            / real (min (analysisCount s) (length (recentScores m)))))))
          else Some 0),
       summary_trend = calculateTrend m,
       final_verdict =
         (if recentScores m = [] then VERDICT_ALLOW
          else if fst (last (recentScores m)) > 70 then VERDICT_BLOCK else VERDICT_ALLOW) \<rparr>"

text \<open>
  The message handler of one connection: the messages sent back, the session and the
  monitor afterwards.  The monitor is the one \<open>riskMonitor\<close> of the process.  The handler
  gives \<open>processAudio\<close> the value of \<open>Buffer.from(message.data, 'base64')\<close>, a Node
  \<open>Buffer\<close>, which is not an \<open>ArrayBuffer\<close>.
\<close>

definition on_message ::
  "Env \<Rightarrow> ClientMessage \<Rightarrow> Session \<Rightarrow> RealTimeRiskMonitor
     \<Rightarrow> ServerMessage list \<times> Session \<times> RealTimeRiskMonitor" where
  "on_message env message s m =
     (case message of
        AudioChunk audioBytes \<Rightarrow>
          (case processAudio NotArrayBuffer of
             None \<Rightarrow> ([ErrorMsg (sessionId s) ''Failed to analyze audio chunk''], s, m)
           | Some analysis \<Rightarrow>
               (let s' = s\<lparr>analysisCount := analysisCount s + 1\<rparr>;
                    riskScore = calculateScore (random_score env) (Some analysis);
                    fullRiskAnalysis = calculateRisk (stream_inputs env analysis);
                    alert = fst (checkAlert riskScore (clock env) m);
                    m' = snd (checkAlert riskScore (clock env) m)
                in ([AnalysisResultMsg
                       \<lparr> result_session = sessionId s',
                         analysisNumber = analysisCount s',
                         simple_score = toFixed1 riskScore,
                         full_analysis = fullRiskAnalysis,
                         monitoring =
                           \<lparr> alert_triggered = isAlert alert,
                             monitoring_severity = severity alert,
                             monitoring_trend = trend alert,
                             recent_scores =
                               map (\<lambda>e. toFixed1 (fst e))
                                 (js_slice_from (- 5) (recentScores m')) \<rparr> \<rparr>],
                    s', m')))
      | EndStream \<Rightarrow> ([StreamComplete (sessionId s) (session_summary env s m)], s, m)
      | OtherMessage \<Rightarrow> ([], s, m)
      | Malformed err \<Rightarrow> ([ErrorMsg (sessionId s) err], s, m))"

record Server =
  riskMonitor :: RealTimeRiskMonitor
  sessions :: "string \<Rightarrow> Session option"

definition start_server :: Server where
  "start_server = \<lparr> riskMonitor = new_monitor, sessions = (\<lambda>c. None) \<rparr>"

text \<open>
  What reaches the server: a new connection, given the id \<open>uuidv4()\<close> draws for it; a
  message on a connection; a file posted to \<open>/analyze\<close>.
\<close>

datatype Event =
    Connect string
  | Message string ClientMessage
  | PostAnalyze "byte list"

text \<open>
  What the server sends: a message on a connection, or the response to a posted file
  with its risk score and alert (\<open>None\<close>: the error response for an empty file).
\<close>

datatype Output =
    ToSession string ServerMessage
  | AnalyzeResponse "(real \<times> Alert) option"

definition server_step ::
  "Env \<Rightarrow> Event \<Rightarrow> Server \<Rightarrow> Output list \<times> Server" where
  "server_step env ev srv =
     (case ev of
        Connect c \<Rightarrow>
          ([ToSession c (Connected c)],
           srv\<lparr>sessions := (sessions srv)
                  (c := Some \<lparr> sessionId = c, analysisCount = 0,
                               sessionStartTime = clock env \<rparr>)\<rparr>)
      | Message c message \<Rightarrow>
          (case sessions srv c of
             None \<Rightarrow> ([], srv)
           | Some s \<Rightarrow>
               (case on_message env message s (riskMonitor srv) of
                  (out, s', m') \<Rightarrow>
                    (map (ToSession c) out,
                     srv\<lparr>riskMonitor := m', sessions := (sessions srv)(c := Some s')\<rparr>)))
      | PostAnalyze fileBuffer \<Rightarrow>
          (if length fileBuffer = 0 then ([AnalyzeResponse None], srv)
           else
             (let result = calculateRisk (analyzeAudioFile fileBuffer (clock env));
                  alert = fst (checkAlert (score result) (clock env) (riskMonitor srv));
                  m' = snd (checkAlert (score result) (clock env) (riskMonitor srv))
              in ([AnalyzeResponse (Some (score result, alert))],
                  srv\<lparr>riskMonitor := m'\<rparr>))))"





section \<open>Example inputs\<close>

definition example_inputs :: RiskInputs where
  "example_inputs =
     \<lparr> latency = 600, pauseStd = 0.05, fillerCount = 0, wpm = 190, pitchMean = 150,
       pitchVar = 700, noiseDb = - 70, isLooping = False, zcr = 0.02, intent = HIGH \<rparr>"

text \<open>Two seconds of clean speech: every quality check of the scorer holds.\<close>

definition clean_speech :: FeatureVector where
  "clean_speech =
     \<lparr> duration = 2, rms_mean = 0.1, zcr_mean = 0.3, spec_centroid_mean = Some 0.2,
       spec_rolloff_mean = 0.4, tempo = 150, mfcc_mean = Some 0.3, pitch_var = None,
       rms_std = 0.05, rms_max = 0.5, zcr_std = 0.1, spec_entropy = 3,
       mfcc_std = Some 0.2, pitch_stability = 2 / 3, loudness_variance = 0.0025 \<rparr>"


text \<open>Eight bytes with no data tag: the letters RIFF and two more 16-bit words.\<close>

definition headerless_bytes :: "byte list" where
  "headerless_bytes = [0x52, 0x49, 0x46, 0x46, 0x00, 0x20, 0x00, 0x40]"

definition env_at :: "int \<Rightarrow> Env" where
  "env_at t = \<lparr> clock = t, random_score = 1 / 2, random_latency = 1 / 2,
                random_filler = 1 / 2 \<rparr>"




text \<open>The server after session B has connected.\<close>

definition connected_b :: Server where
  "connected_b =
     \<lparr> riskMonitor = new_monitor,
       sessions = (\<lambda>c. None)
         (''B'' := Some \<lparr> sessionId = ''B'', analysisCount = 0, sessionStartTime = 0 \<rparr>) \<rparr>"

text \<open>
  Ten scores whose window means, 2.54 and 7.54, are 5 apart in exact arithmetic.  The
  scores 0.7 and 25.7 are the doubles nearest to these decimals.
\<close>

definition close_history :: "ScoreEntry list" where
  "close_history =
     [(3, 1), (3, 2), (3, 3), (3, 4), (binary64 (7 / 10), 5), (3, 6), (3, 7), (3, 8),
      (3, 9), (binary64 (257 / 10), 10)]"

section \<open>Properties of the heuristic-input mode\<close>

lemma js_round_mono: "x \<le> y \<Longrightarrow> js_round x \<le> js_round y"
  unfolding js_round_def by (simp add: floor_mono)

lemma js_round_ge: "of_int n \<le> x \<Longrightarrow> of_int n \<le> js_round x"
  unfolding js_round_def by (simp add: le_floor_iff)

lemma js_round_le: "x \<le> of_int n \<Longrightarrow> js_round x \<le> of_int n"
  unfolding js_round_def by (simp add: floor_le_iff)

lemma js_round_scaled_bounds:
  assumes "0 \<le> x" and "x \<le> 100"
  shows "0 \<le> js_round (x * 100) / 100 \<and> js_round (x * 100) / 100 \<le> 100"
proof -
  have "of_int 0 \<le> x * 100" and "x * 100 \<le> of_int 10000"
    using assms by simp_all
  from js_round_ge [OF this(1)] js_round_le [OF this(2)] show ?thesis
    by simp
qed

lemma cogScore_range: "0 \<le> cogScore i \<and> cogScore i \<le> 100"
  unfolding cogScore_def by simp

lemma behScore_range: "0 \<le> behScore i \<and> behScore i \<le> 100"
  unfolding behScore_def by simp

lemma envScore_range: "0 \<le> envScore i \<and> envScore i \<le> 100"
  unfolding envScore_def by simp

lemma rawRisk_nonneg: "0 \<le> rawRisk i"
  unfolding rawRisk_def
  using cogScore_range [of i] behScore_range [of i] envScore_range [of i] by simp

lemma intentMults_pos: "0 < intentMults t"
  by (cases t) simp_all

lemma finalScore_range: "0 \<le> finalScore i \<and> finalScore i \<le> 100"
  unfolding finalScore_def
  using rawRisk_nonneg [of i] intentMults_pos [of "intent i"]
  by (simp add: less_imp_le)

lemma riskConfidence_range: "0.60 \<le> riskConfidence i \<and> riskConfidence i \<le> 0.90"
proof
  show "0.60 \<le> riskConfidence i"
    unfolding riskConfidence_def by (rule max.cobounded2)
  show "riskConfidence i \<le> 0.90"
    unfolding riskConfidence_def
    by (cases "noiseDb i < - 50"; cases "pitchVar i > 500"; simp)
qed

lemma confidence_percent_range:
  "60 \<le> js_round (riskConfidence i * 100 * 10) / 10
   \<and> js_round (riskConfidence i * 100 * 10) / 10 \<le> 90"
proof -
  have "of_int 600 \<le> riskConfidence i * 100 * 10"
    and "riskConfidence i * 100 * 10 \<le> of_int 900"
    using riskConfidence_range [of i] by simp_all
  from js_round_ge [OF this(1)] js_round_le [OF this(2)] show ?thesis
    by simp
qed

lemma calculateRisk_score_range:
  "0 \<le> score (calculateRisk i) \<and> score (calculateRisk i) \<le> 100"
  using js_round_scaled_bounds [of "finalScore i"] finalScore_range [of i]
  by (simp add: calculateRisk_def)

lemma calculateRisk_components_range:
  "0 \<le> cognitive (components (calculateRisk i))
   \<and> cognitive (components (calculateRisk i)) \<le> 100
   \<and> 0 \<le> behavioral (components (calculateRisk i))
   \<and> behavioral (components (calculateRisk i)) \<le> 100
   \<and> 0 \<le> environmental (components (calculateRisk i))
   \<and> environmental (components (calculateRisk i)) \<le> 100"
  using js_round_scaled_bounds [of "cogScore i"] cogScore_range [of i]
    js_round_scaled_bounds [of "behScore i"] behScore_range [of i]
    js_round_scaled_bounds [of "envScore i"] envScore_range [of i]
  by (simp add: calculateRisk_def)

lemma calculateRisk_confidence_range:
  "60 \<le> confidence (calculateRisk i) \<and> confidence (calculateRisk i) \<le> 90"
  using confidence_percent_range [of i] by (simp add: calculateRisk_def)

lemma calculateScore_range:
  assumes "0 \<le> rnd" and "rnd < 1"
  shows "0 \<le> calculateScore rnd a \<and> calculateScore rnd a \<le> 100"
proof (cases a)
  case None
  then show ?thesis using assms by (simp add: calculateScore_def)
next
  case (Some an)
  show ?thesis
  proof (cases "features an")
    case None
    with Some show ?thesis using assms by (simp add: calculateScore_def)
  next
    case (Some f)
    with \<open>a = Some an\<close> show ?thesis by (simp add: calculateScore_def)
  qed
qed

text \<open>
  C1.  Every score is in [0, 100] and the confidence in [60, 90]: for every input record
  \<open>calculateRisk\<close> returns a final score and cognitive, behavioural and environmental
  component scores in [0, 100] and a confidence in [60, 90] percent, and for every
  analysis (missing, without features, or complete) and every draw \<open>rnd\<close> of
  \<open>Math.random()\<close>, which lies in [0, 1), \<open>calculateScore\<close> returns a value in [0, 100].
\<close>

theorem scores_in_range:
  assumes "0 \<le> rnd" and "rnd < 1"
  shows "0 \<le> score (calculateRisk i) \<and> score (calculateRisk i) \<le> 100
       \<and> 0 \<le> cognitive (components (calculateRisk i))
       \<and> cognitive (components (calculateRisk i)) \<le> 100
       \<and> 0 \<le> behavioral (components (calculateRisk i))
       \<and> behavioral (components (calculateRisk i)) \<le> 100
       \<and> 0 \<le> environmental (components (calculateRisk i))
       \<and> environmental (components (calculateRisk i)) \<le> 100
       \<and> 60 \<le> confidence (calculateRisk i) \<and> confidence (calculateRisk i) \<le> 90
       \<and> 0 \<le> calculateScore rnd a \<and> calculateScore rnd a \<le> 100"
  using calculateRisk_score_range [of i] calculateRisk_components_range [of i]
    calculateRisk_confidence_range [of i] calculateScore_range [OF assms, of a]
  by blast

text \<open>
  C4.  For every input record the final score computed with intent high (multiplier 1.8)
  is at least the final score computed from the same record with intent low
  (multiplier 1.0).
\<close>

theorem high_intent_score_ge_low:
  "score (calculateRisk (i\<lparr>intent := LOW\<rparr>)) \<le> score (calculateRisk (i\<lparr>intent := HIGH\<rparr>))"
proof -
  have same: "rawRisk (i\<lparr>intent := LOW\<rparr>) = rawRisk (i\<lparr>intent := HIGH\<rparr>)"
    by (simp add: rawRisk_def cogScore_def behScore_def envScore_def)
  have "0 \<le> rawRisk (i\<lparr>intent := HIGH\<rparr>)"
    by (rule rawRisk_nonneg)
  then have "rawRisk (i\<lparr>intent := HIGH\<rparr>) * 1.0 \<le> rawRisk (i\<lparr>intent := HIGH\<rparr>) * 1.8"
    by simp
  then have "finalScore (i\<lparr>intent := LOW\<rparr>) \<le> finalScore (i\<lparr>intent := HIGH\<rparr>)"
    unfolding finalScore_def using same by (simp add: min_le_iff_disj)
  then have "js_round (finalScore (i\<lparr>intent := LOW\<rparr>) * 100)
             \<le> js_round (finalScore (i\<lparr>intent := HIGH\<rparr>) * 100)"
    by (intro js_round_mono) simp
  then show ?thesis
    by (simp add: calculateRisk_def divide_right_mono)
qed

theorem scores_in_range_witness:
  "(0::real) \<le> 1 / 2 \<and> (1 / 2 :: real) < 1
   \<and> 0 \<le> score (calculateRisk example_inputs)
   \<and> score (calculateRisk example_inputs) \<le> 100
   \<and> 60 \<le> confidence (calculateRisk example_inputs)
   \<and> confidence (calculateRisk example_inputs) \<le> 90
   \<and> 0 \<le> calculateScore (1 / 2) (Some (analysis_of clean_speech))
   \<and> calculateScore (1 / 2) (Some (analysis_of clean_speech)) \<le> 100
   \<and> 0 \<le> calculateScore (1 / 2) None \<and> calculateScore (1 / 2) None \<le> 100"
proof -
  have h1: "(0::real) \<le> 1 / 2" and h2: "(1 / 2 :: real) < 1"
    by simp_all
  show ?thesis
    using h1 h2
      scores_in_range [OF h1 h2, of example_inputs "Some (analysis_of clean_speech)"]
      scores_in_range [OF h1 h2, of example_inputs None]
    by blast
qed

section \<open>Properties of the quality scorer and the fraud risk\<close>

lemma artifact_score_range:
  "0 \<le> artifact_score (report_of f) \<and> artifact_score (report_of f) \<le> 100"
  by (simp add: report_of_def Let_def)

text \<open>
  What the score counts: the two band tests come out as \<open>zcr_mean \<le> 0.15\<close> and as
  true, whatever the duration.
\<close>

lemma quality_score_counts:
  "quality_score (quality_of f) =
     20 * real (count_true [rms_mean f > 0.05, zcr_mean f \<le> 0.15,
                            spec_rolloff_mean f > 0.3, pitch_stability f > 0.5, True])"
  by (simp add: quality_of_def js_bool_num_def count_true_def)

lemma quality_flags:
  "has_voice (quality_of f) = (rms_mean f > 0.05)
   \<and> natural_speech (quality_of f) = (0.15 < zcr_mean f \<and> zcr_mean f < 0.5)
   \<and> good_frequency (quality_of f) = (spec_rolloff_mean f > 0.3)
   \<and> consistent_pitch (quality_of f) = (pitch_stability f > 0.5)
   \<and> natural_duration (quality_of f) = (1 < duration f \<and> duration f < 30)"
  by (simp add: quality_of_def)

lemma quality_score_le_100: "quality_score (quality_of f) \<le> 100"
  by (simp add: quality_of_def)

text \<open>
  C3.  On two seconds of clean speech all five checks of the claim hold (the five flags
  are true), so the claim's score is 100; the scorer returns 80, because its test of
  the zero-crossing band is false whenever \<open>zcr_mean\<close> exceeds 0.15.
\<close>

theorem quality_score_clean_speech:
  "has_voice (quality_of clean_speech) \<and> natural_speech (quality_of clean_speech)
   \<and> good_frequency (quality_of clean_speech) \<and> consistent_pitch (quality_of clean_speech)
   \<and> natural_duration (quality_of clean_speech)
   \<and> quality_score (quality_of clean_speech) = 80
   \<and> analyzeQuality (Some clean_speech) = Some (quality_of clean_speech)"
  by (simp add: quality_of_def clean_speech_def js_bool_num_def analyzeQuality_def)

text \<open>
  C10.  For every input of \<open>calculateFraudRisk\<close> (a feature vector or null) the value
  returned is at least 50 and at most 100, and it is exactly 50 for null.
\<close>

theorem fraud_risk_at_least_50:
  "50 \<le> calculateFraudRisk fv \<and> calculateFraudRisk fv \<le> 100
   \<and> calculateFraudRisk None = 50"
proof (cases fv)
  case None
  then show ?thesis by (simp add: calculateFraudRisk_def)
next
  case (Some f)
  have "0 \<le> artifact_score (report_of f)"
    using artifact_score_range [of f] by simp
  then have "50 \<le> 50 + (if quality_score (quality_of f) < 40 then 15 else 0)
                  + artifact_score (report_of f)
                  + (if rms_std f < 0.01 then 20 else 0)
                  + (if tempo f > 300 then 15 else (0::real))"
    by simp
  with Some show ?thesis
    by (simp add: calculateFraudRisk_def)
qed

section \<open>Properties of the rounding to the nearest double\<close>

lemma exponent_below_range:
  "- 1022 \<le> exponent_below n a \<and> exponent_below n a \<le> int n - 1022"
  by (induction n) auto

lemma exponent_below_le: "exponent_below n a > - 1022 \<Longrightarrow> 2 powi (exponent_below n a) \<le> a"
  by (induction n) (auto split: if_splits)

lemma exponent_below_gt:
  "a < 2 powi (int n - 1021) \<Longrightarrow> a < 2 powi (exponent_below n a + 1)"
proof (induction n)
  case 0
  then show ?case by simp
next
  case (Suc n)
  show ?case
  proof (cases "2 powi (int n - 1021) \<le> a")
    case True
    have "int (Suc n) - 1021 = int n - 1021 + 1" by simp
    with Suc.prems True show ?thesis by simp
  next
    case False
    then show ?thesis using Suc.IH by simp
  qed
qed

lemma exponent_below_top:
  "2 powi (int n - 1022) \<le> a \<Longrightarrow> 0 < n \<Longrightarrow> exponent_below n a = int n - 1022"
  by (cases n) auto

lemma exponent_range: "- 1022 \<le> exponent x" "exponent x \<le> 1023"
  using exponent_below_range [of 2045 "\<bar>x\<bar>"] by (simp_all add: exponent_def)

lemma exponent_le: "exponent x > - 1022 \<Longrightarrow> 2 powi (exponent x) \<le> \<bar>x\<bar>"
  unfolding exponent_def by (rule exponent_below_le)

lemma exponent_gt:
  assumes "exponent x < 1023"
  shows "\<bar>x\<bar> < 2 powi (exponent x + 1)"
proof -
  have "\<bar>x\<bar> < 2 powi (int 2045 - 1021)"
  proof (rule ccontr)
    assume "\<not> \<bar>x\<bar> < 2 powi (int 2045 - 1021)"
    then have "2 powi (int 2045 - 1022) \<le> \<bar>x\<bar>"
      using power_int_increasing [of "int 2045 - 1022" "int 2045 - 1021" "2::real"] by simp
    then have "exponent x = int 2045 - 1022"
      unfolding exponent_def by (rule exponent_below_top) simp
    with assms show False by simp
  qed
  then show ?thesis unfolding exponent_def by (rule exponent_below_gt)
qed



lemma ulp_pos: "0 < ulp x"
  by (simp add: ulp_def)

lemma round_half_even_of_int: "round_half_even (of_int n) = n"
  by (simp add: round_half_even_def)



text \<open>A rounded value keeps within the powers of two around it.\<close>

lemma pow_split: "2 powi (e + 1) = 2 ^ 53 * (2 powi (e - 52) :: real)"
proof -
  have "e + 1 = 53 + (e - 52)" by simp
  then have "(2::real) powi (e + 1) = 2 powi (53 + (e - 52))" by (rule arg_cong)
  also have "\<dots> = 2 powi 53 * 2 powi (e - 52)"
    by (subst power_int_add) simp_all
  finally show ?thesis by simp
qed










text \<open>The doubles are fixed points of the rounding.\<close>

lemma binary64_representable:
  assumes e: "- 1022 \<le> e" "e \<le> 1023" and m: "\<bar>m\<bar> \<le> 2 ^ 53 \<or> e = 1023"
  shows "binary64 (of_int m * 2 powi (e - 52)) = of_int m * 2 powi (e - 52)"
proof -
  let ?v = "of_int m * (2 powi (e - 52) :: real)"
  let ?e' = "exponent ?v"
  have "\<exists>k::int. ?v / ulp ?v = of_int k"
  proof (cases "?e' \<le> e")
    case True
    have "(2::real) powi (e - 52) = 2 powi ((e - ?e') + (?e' - 52))" by simp
    also have "\<dots> = 2 powi (e - ?e') * 2 powi (?e' - 52)"
      by (subst power_int_add) simp_all
    also have "(2::real) powi (e - ?e') = 2 ^ nat (e - ?e')"
      using True by (simp add: power_int_def)
    finally have p: "(2::real) powi (e - 52) = 2 ^ nat (e - ?e') * ulp ?v"
      by (simp only: ulp_def)
    have "\<And>p a u :: real. 0 < u \<Longrightarrow> p = a * u \<Longrightarrow> of_int m * p / u = of_int m * a"
      by simp
    from this [OF ulp_pos p] have "?v / ulp ?v = of_int (m * 2 ^ nat (e - ?e'))"
      by simp
    then show ?thesis by blast
  next
    case False
    then have gt: "e < ?e'" by simp
    then have "- 1022 < ?e'" using e(1) by simp
    then have lo: "2 powi ?e' \<le> \<bar>?v\<bar>" by (rule exponent_le)
    have e1023: "e < 1023" using gt exponent_range(2) [of ?v] by simp
    with m have mb: "\<bar>m\<bar> \<le> 2 ^ 53" by simp
    then have "real_of_int \<bar>m\<bar> \<le> real_of_int (2 ^ 53)" by (simp only: of_int_le_iff)
    then have "real_of_int \<bar>m\<bar> * 2 powi (e - 52) \<le> real_of_int (2 ^ 53) * 2 powi (e - 52)"
      by (intro mult_right_mono) simp_all
    then have hi: "\<bar>?v\<bar> \<le> 2 powi (e + 1)"
      by (simp add: abs_mult pow_split)
    have "(2::real) powi ?e' \<le> 2 powi (e + 1)" using lo hi by simp
    then have "?e' \<le> e + 1"
      using power_int_strict_increasing [of "e + 1" ?e' "2::real"] by (cases "?e' \<le> e + 1") auto
    with gt have e': "?e' = e + 1" by simp
    have "\<bar>?v\<bar> = 2 powi (e + 1)" using lo hi e' by simp
    then have "real_of_int \<bar>m\<bar> * 2 powi (e - 52) = 2 ^ 53 * 2 powi (e - 52)"
      by (simp add: abs_mult pow_split)
    then have "real_of_int \<bar>m\<bar> = real_of_int (2 ^ 53)" by simp
    then have am: "\<bar>m\<bar> = 2 ^ 53" by (simp only: of_int_eq_iff)
    have u: "ulp ?v = 2 * 2 powi (e - 52)"
    proof -
      have "?e' - 52 = 1 + (e - 52)" using e' by simp
      then have "(2::real) powi (?e' - 52) = 2 powi (1 + (e - 52))" by (rule arg_cong)
      also have "\<dots> = 2 powi 1 * 2 powi (e - 52)"
        by (subst power_int_add) simp_all
      finally show ?thesis by (simp add: ulp_def)
    qed
    have "m = 2 ^ 53 \<or> m = - (2 ^ 53)" using am by linarith
    then have "m = 2 * (m div 2)" by auto
    then have "real_of_int m = 2 * real_of_int (m div 2)"
      by (metis of_int_mult of_int_numeral)
    then have "?v / ulp ?v = of_int (m div 2)"
      unfolding u by simp
    then show ?thesis by blast
  qed
  then obtain k :: int where k: "?v / ulp ?v = of_int k" by blast
  then have "?v = of_int k * ulp ?v"
    using ulp_pos [of ?v] by (simp add: field_simps)
  moreover have "binary64 ?v = of_int k * ulp ?v"
    unfolding binary64_def k round_half_even_of_int by simp
  ultimately show ?thesis by simp
qed


lemma binary64_of_int:
  assumes "\<bar>n\<bar> \<le> 2 ^ 53"
  shows "binary64 (of_int n) = of_int n"
  using binary64_representable [of 52 n] assms by simp

lemma binary64_numeral:
  "(numeral k :: int) \<le> 2 ^ 53 \<Longrightarrow> binary64 (numeral k) = numeral k"
  using binary64_of_int [of "numeral k"] by simp

lemma binary64_zero: "binary64 0 = 0"
  using binary64_of_int [of 0] by simp


text \<open>How a rounding is computed, given the exponent.\<close>

lemma exponent_eqI:
  assumes e: "- 1022 < e" "e \<le> 1023" and lo: "2 powi e \<le> \<bar>x\<bar>"
    and hi: "\<bar>x\<bar> < 2 powi (e + 1)"
  shows "exponent x = e"
proof (rule antisym)
  show "exponent x \<le> e"
  proof (rule ccontr)
    assume "\<not> exponent x \<le> e"
    then have gt: "e + 1 \<le> exponent x" by simp
    then have "- 1022 < exponent x" using e(1) by simp
    then have "2 powi (exponent x) \<le> \<bar>x\<bar>" by (rule exponent_le)
    moreover have "(2::real) powi (e + 1) \<le> 2 powi (exponent x)"
      using gt by (intro power_int_increasing) simp_all
    ultimately show False using hi by simp
  qed
next
  show "e \<le> exponent x"
  proof (rule ccontr)
    assume "\<not> e \<le> exponent x"
    then have lt: "exponent x + 1 \<le> e" by simp
    then have "exponent x < 1023" using e(2) by simp
    then have "\<bar>x\<bar> < 2 powi (exponent x + 1)" by (rule exponent_gt)
    moreover have "(2::real) powi (exponent x + 1) \<le> 2 powi e"
      using lt by (intro power_int_increasing) simp_all
    ultimately show False using lo by simp
  qed
qed

lemma binary64_eqI:
  assumes "- 1022 < e" "e \<le> 1023" "2 powi e \<le> \<bar>x\<bar>" "\<bar>x\<bar> < 2 powi (e + 1)"
    and "round_half_even (x / 2 powi (e - 52)) = m"
  shows "binary64 x = of_int m * 2 powi (e - 52)"
  using exponent_eqI [OF assms(1-4)] assms(5) by (simp add: binary64_def ulp_def)

text \<open>\<open>(0.35).toFixed(1)\<close> is 0.3.\<close>

lemma toFixed1_below_tie: "toFixed1 (35 / 100) = binary64 (3 / 10)"
proof -
  have "binary64 (35 / 100) = of_int 6305039478318694 * 2 powi (- 2 - 52)"
    by (rule binary64_eqI) (simp_all add: round_half_even_def)
  then have d: "binary64 (7 / 20) = 3152519739159347 / 9007199254740992" by simp
  show ?thesis by (simp add: toFixed1_def d)
qed

section \<open>Properties of the monitor\<close>

lemma checkAlert_scores:
  "recentScores (snd (checkAlert s t m)) =
     (if length (recentScores m) \<ge> 10 then tl (recentScores m) @ [(s, t)]
      else recentScores m @ [(s, t)])"
  by (cases "recentScores m") (simp_all add: checkAlert_def Let_def)

lemma appends_scores:
  "length (recentScores m) \<le> 10 \<Longrightarrow>
   recentScores (appends es m) =
     drop (length (recentScores m) + length es - 10) (recentScores m @ es)"
proof (induction es arbitrary: m)
  case Nil
  then show ?case by simp
next
  case (Cons e es)
  obtain s t where e: "e = (s, t)" by (cases e)
  let ?m' = "snd (checkAlert s t m)"
  show ?case
  proof (cases "length (recentScores m) = 10")
    case True
    then obtain x xs where xs: "recentScores m = x # xs" by (cases "recentScores m") auto
    have r: "recentScores ?m' = xs @ [(s, t)]"
      using True xs by (simp add: checkAlert_scores)
    have len: "length (recentScores ?m') \<le> 10" using True xs r by simp
    show ?thesis
      using Cons.IH [OF len] True xs r e by simp
  next
    case False
    with Cons.prems have lt: "length (recentScores m) < 10" by simp
    have r: "recentScores ?m' = recentScores m @ [(s, t)]"
      using lt by (simp add: checkAlert_scores)
    have len: "length (recentScores ?m') \<le> 10" using lt r by simp
    show ?thesis
      using Cons.IH [OF len] lt r e by simp
  qed
qed

text \<open>
  C5.  After any run of appends on a new monitor the history holds the last
  \<open>min 10 n\<close> of the \<open>n\<close> appended entries, in arrival order: it never exceeds 10
  entries (15 appends leave exactly 10, the first 5 gone), the entries dropped are the
  oldest, and one more append on a full history drops its head and adds the new entry
  at the end.
\<close>

theorem history_bounded_fifo:
  "recentScores (appends es new_monitor) = drop (length es - 10) es
   \<and> length (recentScores (appends es new_monitor)) = min 10 (length es)
   \<and> length (recentScores (appends es new_monitor)) \<le> 10
   \<and> recentScores (snd (checkAlert s t (appends es new_monitor))) =
       (if length es \<ge> 10 then tl (recentScores (appends es new_monitor)) @ [(s, t)]
        else recentScores (appends es new_monitor) @ [(s, t)])"
proof -
  have a: "recentScores (appends es new_monitor) = drop (length es - 10) es"
    using appends_scores [of new_monitor es] by (simp add: new_monitor_def)
  have b: "length (recentScores (appends es new_monitor)) = min 10 (length es)"
    unfolding a by simp
  have c: "(length (recentScores (appends es new_monitor)) \<ge> 10) = (length es \<ge> 10)"
    unfolding b by simp
  show ?thesis
    using a b c checkAlert_scores [of s t "appends es new_monitor"] by simp
qed

theorem history_bounded_fifo_witness:
  "recentScores (appends [(1, 1), (2, 2), (3, 3), (4, 4), (5, 5), (6, 6), (7, 7), (8, 8),
       (9, 9), (10, 10), (11, 11), (12, 12), (13, 13), (14, 14), (15, 15)] new_monitor)
     = [(6, 6), (7, 7), (8, 8), (9, 9), (10, 10), (11, 11), (12, 12), (13, 13), (14, 14),
        (15, 15)]"
  using history_bounded_fifo [of "[(1, 1), (2, 2), (3, 3), (4, 4), (5, 5), (6, 6), (7, 7),
       (8, 8), (9, 9), (10, 10), (11, 11), (12, 12), (13, 13), (14, 14), (15, 15)]"]
  by simp


lemma trend_windows:
  assumes h: "recentScores m = older @ prev @ recent"
    and r: "length recent = 5" and p0: "prev \<noteq> []" and p5: "length prev \<le> 5"
    and o: "older = [] \<or> length prev = 5"
  shows "calculateTrend m =
     (if mean_score recent > binary64 (mean_score prev + 5) then INCREASING
      else if mean_score recent < binary64 (mean_score prev - 5) then DECREASING
      else STABLE)"
proof -
  have n: "length (recentScores m) = length older + length prev + 5"
    using h r by simp
  have rec: "js_slice_from (- 5) (recentScores m) = recent"
    using h r by (simp add: js_slice_from_def js_index_def)
  have prv: "js_slice (- 10) (- 5) (recentScores m) = prev"
  proof (cases "older = []")
    case True
    then show ?thesis
      using h r p5 by (simp add: js_slice_def js_index_def Let_def)
  next
    case False
    with o have "length prev = 5" by simp
    then show ?thesis
      using h r by (simp add: js_slice_def js_index_def Let_def)
  qed
  have "\<not> length (recentScores m) < 2" using n by simp
  then show ?thesis
    using p0 by (simp add: calculateTrend_def Let_def rec prv mean_score_def)
qed



text \<open>
  The trend follows the means as computed.  On the scores 3, 3, 3, 3, 0.7, 3, 3, 3, 3,
  25.7 the mean of the last five comes out as 7.540000000000001 and the mean of the
  five before them plus 5 as 7.54, the next double below: the trend is INCREASING.
\<close>

lemma close_history_doubles:
  "binary64 (7 / 10) = 3152519739159347 / 4503599627370496"
  "binary64 (257 / 10) = 7233906901463859 / 281474976710656"
  "binary64 (57195715267605299 / 4503599627370496) = 3574732204225331 / 281474976710656"
  "binary64 (3574732204225331 / 1407374883553280) = 2859785763380265 / 1125899906842624"
  "binary64 (10611606621991731 / 281474976710656) = 2652901655497933 / 70368744177664"
  "binary64 (2652901655497933 / 351843720888320) = 4244642648796693 / 562949953421312"
  "binary64 (8489285297593385 / 1125899906842624) = 8489285297593385 / 1125899906842624"
proof -
  have "binary64 (7 / 10) = of_int 6305039478318694 * 2 powi (- 1 - 52)"
    by (rule binary64_eqI) (simp_all add: round_half_even_def)
  then show "binary64 (7 / 10) = 3152519739159347 / 4503599627370496" by simp
  have "binary64 (257 / 10) = of_int 7233906901463859 * 2 powi (4 - 52)"
    by (rule binary64_eqI) (simp_all add: round_half_even_def)
  then show "binary64 (257 / 10) = 7233906901463859 / 281474976710656" by simp
  have "binary64 (57195715267605299 / 4503599627370496)
          = of_int 7149464408450662 * 2 powi (3 - 52)"
    by (rule binary64_eqI) (simp_all add: round_half_even_def)
  then show "binary64 (57195715267605299 / 4503599627370496)
          = 3574732204225331 / 281474976710656"
    by simp
  have "binary64 (3574732204225331 / 1407374883553280)
          = of_int 5719571526760530 * 2 powi (1 - 52)"
    by (rule binary64_eqI) (simp_all add: round_half_even_def)
  then show "binary64 (3574732204225331 / 1407374883553280)
          = 2859785763380265 / 1125899906842624"
    by simp
  have "binary64 (10611606621991731 / 281474976710656)
          = of_int 5305803310995866 * 2 powi (5 - 52)"
    by (rule binary64_eqI) (simp_all add: round_half_even_def)
  then show "binary64 (10611606621991731 / 281474976710656)
          = 2652901655497933 / 70368744177664"
    by simp
  have "binary64 (2652901655497933 / 351843720888320)
          = of_int 8489285297593386 * 2 powi (2 - 52)"
    by (rule binary64_eqI) (simp_all add: round_half_even_def)
  then show "binary64 (2652901655497933 / 351843720888320)
          = 4244642648796693 / 562949953421312"
    by simp
  have "binary64 (8489285297593385 / 1125899906842624)
          = of_int 8489285297593385 * 2 powi (2 - 52)"
    by (rule binary64_eqI) (simp_all add: round_half_even_def)
  then show "binary64 (8489285297593385 / 1125899906842624)
          = 8489285297593385 / 1125899906842624"
    by simp
qed

lemma close_history_means:
  "mean_score (take 5 close_history) = 2859785763380265 / 1125899906842624"
  "mean_score (drop 5 close_history) = 4244642648796693 / 562949953421312"
  by (simp_all add: close_history_def mean_score_def sum_scores_def binary64_numeral
        close_history_doubles)

lemma trend_of_computed_means:
  "calculateTrend \<lparr> recentScores = close_history, threshold = 70 \<rparr> = INCREASING"
proof -
  have "recentScores \<lparr> recentScores = close_history, threshold = 70 \<rparr>
       = [] @ take 5 close_history @ drop 5 close_history"
    by simp
  from trend_windows [OF this] show ?thesis
    by (simp add: close_history_means close_history_doubles) (simp add: close_history_def)
qed

section \<open>Properties of the decoder and the transform\<close>

lemma is_pow2_iff: "is_pow2 n \<longleftrightarrow> (\<exists>k. n = 2 ^ k)"
proof (induction n rule: is_pow2.induct)
  case (1 n)
  show ?case
  proof (cases "n \<le> 1")
    case True
    show ?thesis
    proof (cases "n = 1")
      case True
      then have "\<exists>k. n = 2 ^ k" by (intro exI [of _ 0]) simp
      then show ?thesis using True by (subst is_pow2.simps) simp
    next
      case False
      with \<open>n \<le> 1\<close> have "n = 0" by simp
      then show ?thesis by (subst is_pow2.simps) simp
    qed
  next
    case False
    then have ih: "is_pow2 (n div 2) \<longleftrightarrow> (\<exists>k. n div 2 = 2 ^ k)" using 1 by simp
    have "(even n \<and> (\<exists>k. n div 2 = 2 ^ k)) \<longleftrightarrow> (\<exists>k. n = 2 ^ k)"
    proof
      assume "even n \<and> (\<exists>k. n div 2 = 2 ^ k)"
      then obtain k where "even n" "n div 2 = 2 ^ k" by blast
      then have "n = 2 ^ Suc k" by (auto elim: evenE)
      then show "\<exists>k. n = 2 ^ k" by blast
    next
      assume "\<exists>k. n = 2 ^ k"
      then obtain k where k: "n = 2 ^ k" by blast
      with False obtain j where "k = Suc j" by (cases k) auto
      with k show "even n \<and> (\<exists>k. n div 2 = 2 ^ k)" by auto
    qed
    with ih False show ?thesis by (subst is_pow2.simps) simp
  qed
qed

lemma length_filter_even_upt:
  "length (filter (\<lambda>i. i mod 2 = 0) [0 ..< n]) = (n + 1) div 2"
proof (induction n)
  case 0
  show ?case by simp
next
  case (Suc n)
  then show ?case by (cases "n mod 2 = 0") (simp_all, presburger+)
qed

lemma length_filter_odd_upt:
  "length (filter (\<lambda>i. i mod 2 = 1) [0 ..< n]) = n div 2"
proof (induction n)
  case 0
  show ?case by simp
next
  case (Suc n)
  then show ?case by (cases "n mod 2 = 0") (simp_all, presburger+)
qed

lemma length_even_indexed: "length (even_indexed xs) = (length xs + 1) div 2"
  by (simp add: even_indexed_def length_filter_even_upt)

lemma length_odd_indexed: "length (odd_indexed xs) = length xs div 2"
  using length_filter_odd_upt [of "length xs"] by (simp add: odd_indexed_def)

lemma butterflies_ok:
  "list_all (\<lambda>k. k < length od \<and> k < length evn) ks \<Longrightarrow>
   \<exists>ps. butterflies N evn od ks = Inr ps \<and> length ps = length ks"
proof (induction ks)
  case Nil
  then show ?case by simp
next
  case (Cons k ks)
  then obtain ps where "butterflies N evn od ks = Inr ps" "length ps = length ks" by auto
  with Cons.prems show ?case by (simp add: Let_def)
qed

lemma butterflies_fails:
  "\<not> list_all (\<lambda>k. k < length od \<and> k < length evn) ks \<Longrightarrow>
   butterflies N evn od ks = Inl TypeError"
proof (induction ks)
  case Nil
  then show ?case by simp
next
  case (Cons k ks)
  show ?case
  proof (cases "k < length od \<and> k < length evn")
    case True
    with Cons have "butterflies N evn od ks = Inl TypeError" by simp
    with True show ?thesis by (simp add: Let_def)
  next
    case False
    then show ?thesis by auto
  qed
qed

lemma length_assemble:
  "length (assemble N ps) = (if even N then 2 * length ps else length ps)"
  by (simp add: assemble_def)

lemma simpleFFT_pow2:
  "is_pow2 (length xs) \<Longrightarrow> \<exists>out. simpleFFT xs = Inr out \<and> length out = length xs"
proof (induction xs rule: simpleFFT.induct)
  case (1 input)
  let ?n = "length input"
  show ?case
  proof (cases "?n \<le> 2")
    case True
    then show ?thesis by (subst simpleFFT.simps) auto
  next
    case False
    then have big: "\<not> ?n \<le> 1" "?n \<noteq> 2" by simp_all
    from "1.prems" big have ev: "even ?n" and half: "is_pow2 (?n div 2)"
      by (subst (asm) is_pow2.simps, simp)+
    have le: "length (even_indexed input) = ?n div 2"
      using ev by (auto simp: length_even_indexed elim: evenE)
    have lo: "length (odd_indexed input) = ?n div 2"
      by (simp add: length_odd_indexed)
    from "1.IH"(1) [OF big] half le obtain evn
      where evn: "simpleFFT (even_indexed input) = Inr evn" "length evn = ?n div 2"
      by auto
    from "1.IH"(2) [OF big evn(1)] half lo obtain od
      where od: "simpleFFT (odd_indexed input) = Inr od" "length od = ?n div 2"
      by auto
    have ks: "(?n + 1) div 2 = ?n div 2" using ev by (auto elim: evenE)
    have "list_all (\<lambda>k. k < length od \<and> k < length evn) [0 ..< ?n div 2]"
      using evn od by (simp add: list_all_iff)
    from butterflies_ok [OF this, of ?n] obtain ps
      where ps: "butterflies ?n evn od [0 ..< ?n div 2] = Inr ps" "length ps = ?n div 2"
      by auto
    have "simpleFFT input = Inr (assemble ?n ps)"
      using big evn od ps ks by (subst simpleFFT.simps) simp
    moreover have "length (assemble ?n ps) = ?n"
      using ev ps by (auto simp: length_assemble elim: evenE)
    ultimately show ?thesis by blast
  qed
qed


text \<open>
  The transform returns only on an input that is empty or of power-of-two length, and
  then as many bins as it was given samples; on any other input it raises.
\<close>

lemma simpleFFT_length:
  "simpleFFT xs = Inr out \<Longrightarrow>
   length out = length xs \<and> (length xs = 0 \<or> is_pow2 (length xs))"
proof (induction xs arbitrary: out rule: simpleFFT.induct)
  case (1 input)
  let ?n = "length input"
  show ?case
  proof (cases "?n \<le> 2")
    case True
    have p1: "is_pow2 1" by (subst is_pow2.simps) simp
    have p2: "is_pow2 2" using p1 by (subst is_pow2.simps) simp
    from True consider "?n = 0" | "?n = 1" | "?n = 2" by linarith
    then show ?thesis
    proof cases
      case 1
      with "1.prems" show ?thesis by (subst (asm) simpleFFT.simps) auto
    next
      case 2
      with "1.prems" p1 show ?thesis by (subst (asm) simpleFFT.simps) auto
    next
      case 3
      with "1.prems" p2 show ?thesis by (subst (asm) simpleFFT.simps) auto
    qed
  next
    case False
    then have big: "\<not> ?n \<le> 1" "?n \<noteq> 2" by simp_all
    from "1.prems" big obtain evn od ps
      where evn: "simpleFFT (even_indexed input) = Inr evn"
        and od: "simpleFFT (odd_indexed input) = Inr od"
        and ps: "butterflies ?n evn od [0 ..< (?n + 1) div 2] = Inr ps"
        and out: "out = assemble ?n ps"
      by (subst (asm) simpleFFT.simps) (auto split: sum.splits)
    from "1.IH"(1) [OF big evn]
    have le: "length evn = (?n + 1) div 2" "is_pow2 ((?n + 1) div 2)"
      using big by (auto simp: length_even_indexed)
    from "1.IH"(2) [OF big evn od]
    have lo: "length od = ?n div 2" "is_pow2 (?n div 2)"
      using big by (auto simp: length_odd_indexed)
    have all: "list_all (\<lambda>k. k < length od \<and> k < length evn) [0 ..< (?n + 1) div 2]"
      using ps butterflies_fails [of od evn "[0 ..< (?n + 1) div 2]" ?n] by auto
    have ev: "even ?n"
    proof (rule ccontr)
      assume "odd ?n"
      then have "?n div 2 < (?n + 1) div 2" by (auto elim: oddE)
      then have "?n div 2 \<in> set [0 ..< (?n + 1) div 2]" by simp
      with all have "?n div 2 < length od" by (auto simp: list_all_iff)
      with lo show False by simp
    qed
    from butterflies_ok [OF all, of ?n] ps have "length ps = (?n + 1) div 2" by auto
    with ev out have "length out = ?n" by (auto simp: length_assemble elim: evenE)
    moreover have "is_pow2 ?n"
      using ev lo big by (subst is_pow2.simps) simp
    ultimately show ?thesis by simp
  qed
qed

lemma simpleFFT_not_pow2:
  assumes "length xs \<noteq> 0" and "\<not> is_pow2 (length xs)"
  shows "simpleFFT xs = Inl TypeError"
proof (cases "simpleFFT xs")
  case (Inl e)
  then show ?thesis by (cases e) simp
next
  case (Inr out)
  from simpleFFT_length [OF this] assms show ?thesis by simp
qed


lemma fft_input_take: "fft_input xs = take 2048 xs"
  by (simp add: fft_input_def js_slice_def js_index_def Let_def min_def)

lemma is_pow2_2048: "is_pow2 2048"
  by (simp add: is_pow2.simps)

text \<open>
  C7.  Spectral analysis hands the transform the first \<open>min 2048 N\<close> samples of the
  buffer as they are, with no truncation to a power of two.  The transform receives an
  input of power-of-two length whenever \<open>N \<ge> 2048\<close>, and whenever \<open>min 2048 N\<close> is a
  power of two it returns that many bins.
\<close>

theorem spectral_window:
  "fft_input audioData = take (min 2048 (length audioData)) audioData
   \<and> length (fft_input audioData) = min 2048 (length audioData)
   \<and> (2048 \<le> length audioData \<longrightarrow> is_pow2 (length (fft_input audioData)))
   \<and> (is_pow2 (min 2048 (length audioData)) \<longrightarrow>
        (\<exists>out. simpleFFT (fft_input audioData) = Inr out
               \<and> length out = min 2048 (length audioData)))"
proof (intro conjI impI)
  show "fft_input audioData = take (min 2048 (length audioData)) audioData"
    by (simp add: fft_input_take min_def)
  show len: "length (fft_input audioData) = min 2048 (length audioData)"
    by (simp add: fft_input_take min_def)
  show "is_pow2 (length (fft_input audioData))" if "2048 \<le> length audioData"
    using that is_pow2_2048 by (simp add: len min_def)
  show "\<exists>out. simpleFFT (fft_input audioData) = Inr out
              \<and> length out = min 2048 (length audioData)"
    if "is_pow2 (min 2048 (length audioData))"
    using simpleFFT_pow2 [of "fft_input audioData"] that by (simp add: len)
qed

theorem spectral_window_witness:
  "2048 \<le> length (replicate 2048 (0::real))
   \<and> is_pow2 (length (fft_input (replicate 2048 0)))
   \<and> is_pow2 (min 2048 (length [1, 2, 3, 4 :: real]))
   \<and> (\<exists>out. simpleFFT (fft_input [1, 2, 3, 4]) = Inr out \<and> length out = 4)"
proof -
  have h1: "2048 \<le> length (replicate 2048 (0::real))"
    by simp
  have h2: "is_pow2 (min 2048 (length [1, 2, 3, 4 :: real]))"
    by (simp add: is_pow2.simps)
  from spectral_window [of "replicate 2048 0"] h1
  have c1: "is_pow2 (length (fft_input (replicate 2048 (0::real))))"
    by blast
  from spectral_window [of "[1, 2, 3, 4]"] h2
  have "\<exists>out. simpleFFT (fft_input [1, 2, 3, 4]) = Inr out
              \<and> length out = min 2048 (length [1, 2, 3, 4 :: real])"
    by blast
  moreover have "min 2048 (length [1, 2, 3, 4 :: real]) = 4"
    by simp
  ultimately have c2: "\<exists>out. simpleFFT (fft_input [1, 2, 3, 4]) = Inr out \<and> length out = 4"
    by (simp only:)
  from h1 h2 c1 c2 show ?thesis by blast
qed

text \<open>
  Against C7 as stated: a buffer of 3 samples goes to the transform whole, not cut to
  its first 2 samples, and 3 is not a power of two.
\<close>

theorem spectral_window_not_truncated:
  "fft_input [1, 2, 3] = [1, 2, 3]
   \<and> \<not> is_pow2 (length (fft_input [1, 2, 3]))
   \<and> simpleFFT (fft_input [1, 2, 3]) = Inl TypeError"
proof -
  have a: "fft_input [1, 2, 3] = [1, 2, 3 :: real]"
    by (simp add: fft_input_take)
  have b: "\<not> is_pow2 (length [1, 2, 3 :: real])"
    by (simp add: is_pow2.simps)
  have c: "simpleFFT [1, 2, 3] = Inl TypeError"
    by (rule simpleFFT_not_pow2) (use b in simp_all)
  from a b c show ?thesis by simp
qed

lemma find_data_start_absent:
  "list_all (\<lambda>j. \<not> data_tag_at bs j) [i ..< length bs - 4] \<Longrightarrow> find_data_start bs i = 0"
proof (induction bs i rule: find_data_start.induct)
  case (1 bs i)
  show ?case
  proof (cases "i + 4 < length bs")
    case True
    then have i: "i < length bs - 4" by simp
    then have upt: "[i ..< length bs - 4] = i # [i + 1 ..< length bs - 4]"
      by (simp add: upt_conv_Cons)
    from "1.prems" upt have no: "\<not> data_tag_at bs i"
      and rest: "list_all (\<lambda>j. \<not> data_tag_at bs j) [i + 1 ..< length bs - 4]"
      by simp_all
    from "1.IH" [OF True no rest] True no show ?thesis
      by (subst find_data_start.simps) simp
  next
    case False
    then show ?thesis by (subst find_data_start.simps) simp
  qed
qed

lemma length_samples_from: "length (samples_from bs i) = (length bs - i) div 2"
proof (induction bs i rule: samples_from.induct)
  case (1 bs i)
  show ?case
  proof (cases "i + 1 < length bs")
    case True
    then obtain d where d: "length bs - i = d + 2" 
      by (metis add_2_eq_Suc' less_diff_conv less_imp_Suc_add add.commute plus_1_eq_Suc)
    then have "length bs - (i + 2) = d" by simp
    with "1.IH" [OF True] True d show ?thesis
      by (subst samples_from.simps) simp
  next
    case False
    then show ?thesis by (subst samples_from.simps) simp
  qed
qed

lemma processAudio_none_iff:
  "parseWAV b = Some xs \<Longrightarrow>
   (processAudio b = None) = (length xs = 0 \<or> simpleFFT (fft_input xs) = Inl TypeError)"
proof -
  assume p: "parseWAV b = Some xs"
  show ?thesis
  proof (cases "simpleFFT (fft_input xs)")
    case (Inl e)
    then have "simpleFFT (fft_input xs) = Inl TypeError" by (cases e) simp
    with p show ?thesis
      by (simp add: processAudio_def extractFeatures_def calculateSpectral_def)
  next
    case (Inr out)
    with p show ?thesis
      by (simp add: processAudio_def extractFeatures_def calculateSpectral_def)
  qed
qed

lemma nth_samples_from:
  "k < (length bs - i) div 2 \<Longrightarrow>
   samples_from bs i ! k = real_of_int (getInt16 bs (i + 2 * k)) / 32768"
proof (induction k arbitrary: i)
  case 0
  then have "i + 1 < length bs" by simp
  then show ?case by (subst samples_from.simps) simp
next
  case (Suc k)
  then have i: "i + 1 < length bs" and k: "k < (length bs - (i + 2)) div 2" by simp_all
  from Suc.IH [OF k] i show ?case by (subst samples_from.simps) simp
qed

text \<open>
  C2.  The decoder has no typed errors: its one failure is the null returned for a
  value that is not an \<open>ArrayBuffer\<close>.  An empty buffer decodes to the empty sample
  array, for which \<open>extractFeatures\<close> and \<open>processAudio\<close> return null: no feature
  vector.  A buffer in which the scan finds no data tag is decoded as 16-bit
  little-endian samples from offset 0, half as many as it has bytes, and
  \<open>processAudio\<close> returns null for it exactly when it has fewer than 2 bytes or the
  transform raises.
\<close>

theorem decode_without_typed_errors:
  "parseWAV NotArrayBuffer = None
   \<and> processAudio NotArrayBuffer = None
   \<and> parseWAV (ArrayBuffer []) = Some []
   \<and> extractFeatures (Some []) = Inr None
   \<and> processAudio (ArrayBuffer []) = None
   \<and> (tag_absent bs \<longrightarrow>
        parseWAV (ArrayBuffer bs) = Some (samples_from bs 0)
        \<and> length (samples_from bs 0) = length bs div 2
        \<and> (\<forall>k < length bs div 2.
              samples_from bs 0 ! k = real_of_int (getInt16 bs (2 * k)) / 32768)
        \<and> (processAudio (ArrayBuffer bs) = None)
            = (length bs < 2 \<or> simpleFFT (fft_input (samples_from bs 0)) = Inl TypeError))"
proof (intro conjI impI allI)
  have f: "find_data_start [] 0 = 0" by (subst find_data_start.simps) simp
  have s: "samples_from [] 0 = []" by (subst samples_from.simps) simp
  show "parseWAV NotArrayBuffer = None" by (simp add: parseWAV_def)
  then show "processAudio NotArrayBuffer = None" by (simp add: processAudio_def)
  show e: "parseWAV (ArrayBuffer []) = Some []" by (simp add: parseWAV_def f s)
  show "extractFeatures (Some []) = Inr None" by (simp add: extractFeatures_def)
  show "processAudio (ArrayBuffer []) = None"
    by (simp add: processAudio_def e extractFeatures_def)
next
  assume "tag_absent bs"
  then have "find_data_start bs 0 = 0"
    by (intro find_data_start_absent) (simp add: tag_absent_def)
  then show p: "parseWAV (ArrayBuffer bs) = Some (samples_from bs 0)"
    by (simp add: parseWAV_def)
  show "length (samples_from bs 0) = length bs div 2"
    by (simp add: length_samples_from)
  show "(processAudio (ArrayBuffer bs) = None)
        = (length bs < 2 \<or> simpleFFT (fft_input (samples_from bs 0)) = Inl TypeError)"
    unfolding processAudio_none_iff [OF p] length_samples_from
    by (simp add: div_eq_0_iff)
next
  fix k
  assume "k < length bs div 2"
  then show "samples_from bs 0 ! k = real_of_int (getInt16 bs (2 * k)) / 32768"
    using nth_samples_from [of k bs 0] by simp
qed

lemma headerless_samples:
  "samples_from headerless_bytes 0 = [18770 / 32768, 17990 / 32768, 1 / 4, 1 / 2]"
  by (simp add: headerless_bytes_def samples_from.simps getInt16_def)

lemma headerless_tag_absent: "tag_absent headerless_bytes"
  by (simp add: tag_absent_def headerless_bytes_def data_tag_at_def upt_conv_Cons)

text \<open>
  Against C2 as stated: eight bytes without a data tag are decoded into four samples,
  and the pipeline returns an analysis for them.
\<close>

theorem headerless_buffer_is_decoded:
  "tag_absent headerless_bytes
   \<and> parseWAV (ArrayBuffer headerless_bytes)
       = Some [18770 / 32768, 17990 / 32768, 1 / 4, 1 / 2]
   \<and> processAudio (ArrayBuffer headerless_bytes) \<noteq> None"
proof -
  have f: "find_data_start headerless_bytes 0 = 0"
    using headerless_tag_absent
    by (intro find_data_start_absent) (simp add: tag_absent_def)
  have p: "parseWAV (ArrayBuffer headerless_bytes)
           = Some [18770 / 32768, 17990 / 32768, 1 / 4, 1 / 2]"
    by (simp add: parseWAV_def f headerless_samples)
  have "is_pow2 (length (fft_input [18770 / 32768, 17990 / 32768, 1 / 4, 1 / 2 :: real]))"
    by (simp add: fft_input_take is_pow2.simps)
  from simpleFFT_pow2 [OF this]
  have "simpleFFT (fft_input [18770 / 32768, 17990 / 32768, 1 / 4, 1 / 2]) \<noteq> Inl TypeError"
    by auto
  then have "processAudio (ArrayBuffer headerless_bytes) \<noteq> None"
    using processAudio_none_iff [OF p] by simp
  with headerless_tag_absent p show ?thesis by simp
qed

theorem decode_without_typed_errors_witness:
  "tag_absent headerless_bytes
   \<and> parseWAV (ArrayBuffer headerless_bytes) = Some (samples_from headerless_bytes 0)
   \<and> length (samples_from headerless_bytes 0) = 4"
  using decode_without_typed_errors [of headerless_bytes] headerless_tag_absent
  by (simp add: headerless_bytes_def)

section \<open>Properties of the server\<close>






lemma server_step_connect:
  "server_step env (Connect c) srv =
     ([ToSession c (Connected c)],
      srv\<lparr>sessions := (sessions srv)
             (c := Some \<lparr> sessionId = c, analysisCount = 0, sessionStartTime = clock env \<rparr>)\<rparr>)"
  by (simp add: server_step_def)














lemma snd_step_connect:
  "snd (server_step env (Connect c) srv) =
     srv\<lparr>sessions := (sessions srv)
            (c := Some \<lparr> sessionId = c, analysisCount = 0, sessionStartTime = clock env \<rparr>)\<rparr>"
  by (simp add: server_step_connect)











text \<open>The example server is the one a first connection leaves.\<close>

lemma connected_b_reached:
  "snd (server_step (env_at 0) (Connect ''B'') start_server) = connected_b"
  by (simp add: snd_step_connect start_server_def connected_b_def env_at_def)


end
